theory Spec2Isabelle
  imports Complex_Main "HOL-Library.Word"
begin

section \<open>Tessellation parameters (tessellated\_path.hpp)\<close>

text \<open>
  \<^verbatim>\<open>float\<close> values are modelled by the real numbers they stand for and the macro
  \<^verbatim>\<open>M_PI\<close> of the C library by \<open>pi\<close>; \<^verbatim>\<open>unsigned int\<close> is a 32-bit word.
\<close>

definition M_PI :: real where
  "M_PI = pi"

record TessellationParams =
  m_curvature_tessellation :: bool
  m_threshhold :: real
  m_max_segments :: "32 word"

text \<open>The constructor \<^verbatim>\<open>TessellationParams(void)\<close> with its member initialisers.\<close>

definition TessellationParams_ctor :: TessellationParams where
  "TessellationParams_ctor =
     \<lparr> m_curvature_tessellation = True,
       m_threshhold = M_PI / 30,
       m_max_segments = 32 \<rparr>"

text \<open>\<^verbatim>\<open>operator!=\<close>: the disjunction of the three member comparisons.\<close>

definition TessellationParams_neq :: "TessellationParams \<Rightarrow> TessellationParams \<Rightarrow> bool" where
  "TessellationParams_neq lhs rhs \<longleftrightarrow>
     m_curvature_tessellation lhs \<noteq> m_curvature_tessellation rhs
     \<or> m_threshhold lhs \<noteq> m_threshhold rhs
     \<or> m_max_segments lhs \<noteq> m_max_segments rhs"

definition curvature_tessellate :: "real \<Rightarrow> TessellationParams \<Rightarrow> TessellationParams" where
  "curvature_tessellate p this = this\<lparr> m_curvature_tessellation := True, m_threshhold := p \<rparr>"

definition curvature_tessellate_num_points_in_circle ::
    "32 word \<Rightarrow> TessellationParams \<Rightarrow> TessellationParams" where
  "curvature_tessellate_num_points_in_circle N this =
     this\<lparr> m_curvature_tessellation := True, m_threshhold := 2 * M_PI / real (unat N) \<rparr>"

definition curve_distance_tessellate :: "real \<Rightarrow> TessellationParams \<Rightarrow> TessellationParams" where
  "curve_distance_tessellate p this = this\<lparr> m_curvature_tessellation := False, m_threshhold := p \<rparr>"

definition max_segments :: "32 word \<Rightarrow> TessellationParams \<Rightarrow> TessellationParams" where
  "max_segments v this = this\<lparr> m_max_segments := v \<rparr>"

text \<open>
  The default argument of \<^verbatim>\<open>Path::Path(const TessellationParams &tess_params =
  TessellatedPath::TessellationParams())\<close> (path.hpp): the parameters a \<^verbatim>\<open>Path\<close>
  receives when it is constructed without explicit parameters.
\<close>

definition Path_default_tess_params :: TessellationParams where
  "Path_default_tess_params = TessellationParams_ctor"

section \<open>Stroking chunk slots (painter\_attribute\_data.hpp)\<close>

text \<open>
  The enumeration \<^verbatim>\<open>stroking_data_t\<close>. Its enumerators are the integer values C++ gives
  them: the first is 0, each further one is its predecessor plus one unless it has an
  initialiser. Two enumerators share the value of \<^verbatim>\<open>number_with_closing_edge\<close>, and
  \<^verbatim>\<open>without_closing_edge\<close> computes with the values, so the type is modelled by \<open>nat\<close>.
\<close>

type_synonym stroking_data_t = nat

definition rounded_joins_closing_edge :: stroking_data_t where
  "rounded_joins_closing_edge = 0"

definition bevel_joins_closing_edge :: stroking_data_t where
  "bevel_joins_closing_edge = rounded_joins_closing_edge + 1"

definition miter_joins_closing_edge :: stroking_data_t where
  "miter_joins_closing_edge = bevel_joins_closing_edge + 1"

definition edge_closing_edge :: stroking_data_t where
  "edge_closing_edge = miter_joins_closing_edge + 1"

definition number_with_closing_edge :: stroking_data_t where
  "number_with_closing_edge = edge_closing_edge + 1"

definition rounded_joins_no_closing_edge :: stroking_data_t where
  "rounded_joins_no_closing_edge = number_with_closing_edge"

definition bevel_joins_no_closing_edge :: stroking_data_t where
  "bevel_joins_no_closing_edge = rounded_joins_no_closing_edge + 1"

definition miter_joins_no_closing_edge :: stroking_data_t where
  "miter_joins_no_closing_edge = bevel_joins_no_closing_edge + 1"

definition edge_no_closing_edge :: stroking_data_t where
  "edge_no_closing_edge = miter_joins_no_closing_edge + 1"

definition rounded_cap :: stroking_data_t where
  "rounded_cap = edge_no_closing_edge + 1"

definition square_cap :: stroking_data_t where
  "square_cap = rounded_cap + 1"

definition stroking_data_count :: stroking_data_t where
  "stroking_data_count = square_cap + 1"

definition without_closing_edge :: "stroking_data_t \<Rightarrow> stroking_data_t" where
  "without_closing_edge v =
     (if v < number_with_closing_edge then v + number_with_closing_edge else v)"

text \<open>The slots of the stroking chunk set, in the order of the enumeration.\<close>

definition stroking_slots :: "stroking_data_t list" where
  "stroking_slots =
     [rounded_joins_closing_edge, bevel_joins_closing_edge, miter_joins_closing_edge,
      edge_closing_edge,
      rounded_joins_no_closing_edge, bevel_joins_no_closing_edge, miter_joins_no_closing_edge,
      edge_no_closing_edge,
      rounded_cap, square_cap]"

section \<open>Glyph attribute data (painter\_attribute\_data.hpp)\<close>

subsection \<open>Vectors, attributes and the chunk set\<close>

type_synonym vec2 = "real \<times> real"

datatype 'a vec4 = vec4 (vec_x: 'a) (vec_y: 'a) (vec_z: 'a) (vec_w: 'a)

definition vec2_add :: "vec2 \<Rightarrow> vec2 \<Rightarrow> vec2" where
  "vec2_add a b = (fst a + fst b, snd a + snd b)"

text \<open>
  \<^verbatim>\<open>PainterAttribute\<close> with the three members that the documentation of
  \<^verbatim>\<open>PainterAttributeData\<close> names: two vectors of four floats and one of four 32-bit
  unsigned integers. A \<^verbatim>\<open>PainterIndex\<close> is an index into an attribute chunk; the sizes
  stay far below the range of the index type, so it is a natural number here.
\<close>

record PainterAttribute =
  m_primary_attrib :: "real vec4"
  m_secondary_attrib :: "real vec4"
  m_uint_attrib :: "32 word vec4"

type_synonym PainterIndex = nat

text \<open>
  Modelled from the spec: the private data of \<^verbatim>\<open>PainterAttributeData\<close> is missing (the
  header keeps it behind \<^verbatim>\<open>void *m_d\<close>). A chunk set is a collection of chunks indexed by
  small integers, each an attribute array, an index array and a z-increment; it is given
  by what the three accessors of the header return for each index.
\<close>

record PainterAttributeData =
  attribute_data_chunk :: "nat \<Rightarrow> PainterAttribute list"
  index_data_chunk :: "nat \<Rightarrow> PainterIndex list"
  increment_z_value :: "nat \<Rightarrow> nat"

text \<open>
  Modelled from the spec: the constructor of \<^verbatim>\<open>PainterAttributeData\<close> is missing. Before
  any data is set every chunk is empty.
\<close>

definition empty_data :: PainterAttributeData where
  "empty_data =
     \<lparr> attribute_data_chunk = (\<lambda>i. []),
       index_data_chunk = (\<lambda>i. []),
       increment_z_value = (\<lambda>i. 0) \<rparr>"

subsection \<open>Glyphs and the glyph cache\<close>

text \<open>
  Modelled from the spec: the header \<^verbatim>\<open>text/glyph.hpp\<close> is missing. The place of a glyph
  in an atlas is a texel rectangle and a layer.
\<close>

record GlyphLocation =
  location :: vec2
  location_size :: vec2
  layer :: "32 word"

text \<open>
  Modelled from the spec: the header \<^verbatim>\<open>text/glyph.hpp\<close> is missing. A glyph carries what
  the glyph cache and the atlas provide: its render type (the index of its chunk), its place
  in the primary and in the secondary atlas, its metrics in item space and its handle (the
  glyph offset of the attribute documentation).
\<close>

record Glyph =
  glyph_type :: nat
  atlas_location :: GlyphLocation
  secondary_atlas_location :: GlyphLocation
  layout_size :: vec2
  glyph_offset :: "32 word"

text \<open>
  Modelled from the spec: the header \<^verbatim>\<open>painter_enums.hpp\<close> is missing. The orientation
  says whether the vertical axis increases downwards (the default of \<^verbatim>\<open>set_data\<close>) or
  upwards.
\<close>

datatype glyph_orientation = y_increases_downwards | y_increases_upwards

text \<open>A violated contract is a programmer error: the call fails fast.\<close>

datatype error = ContractViolation

subsection \<open>Packing one glyph\<close>

text \<open>
  Modelled from the spec: the code that packs a glyph (\<^verbatim>\<open>painter_attribute_data.cpp\<close>) is
  missing. The attribute of one corner of a glyph, field by field as the documentation of
  \<^verbatim>\<open>PainterAttributeData\<close> in the header lists the packing of glyphs:
  primary \<open>.xy\<close> the texel in the primary atlas, primary \<open>.zw\<close> the texel in the secondary
  atlas, secondary \<open>.xy\<close> the position in item coordinates, secondary \<open>.z\<close> and \<open>.w\<close> free
  (0.0), uint \<open>.x\<close> 0, \<open>.y\<close> the glyph offset, \<open>.z\<close> and \<open>.w\<close> the layers in the primary and
  in the secondary atlas.
\<close>

definition pack_glyph_attribute :: "Glyph \<Rightarrow> vec2 \<Rightarrow> vec2 \<Rightarrow> vec2 \<Rightarrow> PainterAttribute" where
  "pack_glyph_attribute g t t2 p =
     \<lparr> m_primary_attrib = vec4 (fst t) (snd t) (fst t2) (snd t2),
       m_secondary_attrib = vec4 (fst p) (snd p) 0 0,
       m_uint_attrib =
         vec4 0 (glyph_offset g) (layer (atlas_location g)) (layer (secondary_atlas_location g)) \<rparr>"

text \<open>
  Modelled from the spec: the code that packs a glyph is missing. The four corners of a
  rectangle between two opposite corners, in the order of the vertices of a quad.
\<close>

definition rect_corners :: "vec2 \<Rightarrow> vec2 \<Rightarrow> vec2 list" where
  "rect_corners a b = [(fst a, snd a), (fst b, snd a), (fst b, snd b), (fst a, snd b)]"

text \<open>
  Modelled from the spec: the code that packs a glyph is missing. A glyph is placed by the
  position of its bottom left corner and scaled by its scale; the orientation decides
  whether the vertical axis increases upwards or downwards, so on which side of the
  position the opposite corner lies.
\<close>

definition glyph_far_corner :: "glyph_orientation \<Rightarrow> vec2 \<Rightarrow> Glyph \<Rightarrow> real \<Rightarrow> vec2" where
  "glyph_far_corner orientation p g s =
     (case orientation of
        y_increases_downwards \<Rightarrow>
          (fst p + s * fst (layout_size g), snd p - s * snd (layout_size g))
      | y_increases_upwards \<Rightarrow>
          (fst p + s * fst (layout_size g), snd p + s * snd (layout_size g)))"

text \<open>
  Modelled from the spec: the code that packs a glyph is missing. The corners of the texel
  rectangle of a glyph in an atlas.
\<close>

definition location_corners :: "GlyphLocation \<Rightarrow> vec2 list" where
  "location_corners a = rect_corners (location a) (vec2_add (location a) (location_size a))"

text \<open>
  Modelled from the spec: the code that packs a glyph is missing. Each corner of the quad
  has a texel in the primary atlas, a texel in the secondary atlas and a position.
\<close>

definition glyph_corners ::
    "glyph_orientation \<Rightarrow> vec2 \<Rightarrow> Glyph \<Rightarrow> real \<Rightarrow> (vec2 \<times> vec2 \<times> vec2) list" where
  "glyph_corners orientation p g s =
     zip (location_corners (atlas_location g))
       (zip (location_corners (secondary_atlas_location g))
          (rect_corners p (glyph_far_corner orientation p g s)))"

text \<open>
  Modelled from the spec: the code that packs a glyph is missing. A glyph gives four
  quad-corner vertices.
\<close>

definition pack_glyph_attributes ::
    "glyph_orientation \<Rightarrow> vec2 \<Rightarrow> Glyph \<Rightarrow> real \<Rightarrow> PainterAttribute list" where
  "pack_glyph_attributes orientation p g s =
     map (\<lambda>(t, t2, q). pack_glyph_attribute g t t2 q) (glyph_corners orientation p g s)"

text \<open>
  Modelled from the spec: the code that packs a glyph is missing. A glyph gives six
  triangle indices, the two triangles of its quad; \<open>first\<close> is the index of the first of
  its four vertices in the attribute chunk.
\<close>

definition pack_glyph_indices :: "nat \<Rightarrow> PainterIndex list" where
  "pack_glyph_indices first = [first, first + 1, first + 2, first, first + 2, first + 3]"

type_synonym placement = "vec2 \<times> Glyph \<times> real"

text \<open>
  Modelled from the spec: the body of the glyph \<^verbatim>\<open>set_data\<close> is missing. A glyph that
  is uploaded appends its four vertices and its six indices to the chunk of its render type
  and increments the z-increment of that chunk by one.
\<close>

definition append_glyph ::
    "glyph_orientation \<Rightarrow> PainterAttributeData \<Rightarrow> placement \<Rightarrow> PainterAttributeData" where
  "append_glyph orientation d pl =
     (case pl of (p, g, s) \<Rightarrow>
        let t = glyph_type g in
        \<lparr> attribute_data_chunk =
            (attribute_data_chunk d)
              (t := attribute_data_chunk d t @ pack_glyph_attributes orientation p g s),
          index_data_chunk =
            (index_data_chunk d)
              (t := index_data_chunk d t @ pack_glyph_indices (length (attribute_data_chunk d t))),
          increment_z_value = (increment_z_value d) (t := increment_z_value d t + 1) \<rparr>)"

subsection \<open>The glyph \<^verbatim>\<open>set_data\<close>\<close>

text \<open>
  Modelled from the spec: the body of the glyph \<^verbatim>\<open>set_data\<close>
  (\<^verbatim>\<open>painter_attribute_data.cpp\<close>) and the glyph cache are missing. The glyph cache is an
  external collaborator whose upload operation can fail; it is the parameter \<open>upload\<close>,
  from the state of the cache and a glyph to the new state of the cache, or \<open>None\<close> when
  the glyph cannot be uploaded.

  The loop of \<^verbatim>\<open>set_data\<close>: for each glyph in order, upload it; on failure stop and
  return the index of the glyph; on success append its quad; when every glyph is done
  return the count. The cache is returned as the loop leaves it.
\<close>

fun pack_glyphs ::
    "('c \<Rightarrow> Glyph \<Rightarrow> 'c option) \<Rightarrow> glyph_orientation \<Rightarrow> placement list \<Rightarrow>
     nat \<Rightarrow> 'c \<Rightarrow> PainterAttributeData \<Rightarrow> nat \<times> PainterAttributeData \<times> 'c" where
  "pack_glyphs upload orientation [] i c d = (i, d, c)"
| "pack_glyphs upload orientation (pl # rest) i c d =
     (case upload c (fst (snd pl)) of
        None \<Rightarrow> (i, d, c)
      | Some c' \<Rightarrow>
          pack_glyphs upload orientation rest (Suc i) c' (append_glyph orientation d pl))"

text \<open>
  Modelled from the spec: the body of the glyph \<^verbatim>\<open>set_data\<close> is missing. The scale of
  each glyph is the scale factor given for it, or 1 when the array of scale factors is empty
  (no scaling factors).
\<close>

definition glyph_scales :: "nat \<Rightarrow> real list \<Rightarrow> real list" where
  "glyph_scales n scale_factors = (if scale_factors = [] then replicate n 1 else scale_factors)"

text \<open>
  Modelled from the spec: the body of the glyph \<^verbatim>\<open>set_data\<close> is missing. The arrays
  are read in parallel, as triples of a position, a glyph and a scale.
\<close>

definition placements :: "vec2 list \<Rightarrow> Glyph list \<Rightarrow> real list \<Rightarrow> placement list" where
  "placements glyph_positions glyphs scale_factors =
     zip glyph_positions (zip glyphs (glyph_scales (length glyph_positions) scale_factors))"

text \<open>
  Modelled from the spec: the body of
  \<^verbatim>\<open>set_data(glyph_positions, glyphs, scale_factors, orientation)\<close> is missing. The two
  contracts of the header (\<open>glyphs\<close> of the same size as \<open>glyph_positions\<close>;
  \<open>scale_factors\<close> empty or of the same length as \<open>glyph_positions\<close>) fail fast when they
  are violated. The data of the object is replaced as a whole: the loop starts from empty
  chunks.
\<close>

definition set_data ::
    "('c \<Rightarrow> Glyph \<Rightarrow> 'c option) \<Rightarrow> 'c \<Rightarrow> vec2 list \<Rightarrow> Glyph list \<Rightarrow> real list \<Rightarrow>
     glyph_orientation \<Rightarrow> error + nat \<times> PainterAttributeData \<times> 'c" where
  "set_data upload c glyph_positions glyphs scale_factors orientation =
     (if length glyphs \<noteq> length glyph_positions then Inl ContractViolation
      else if scale_factors \<noteq> [] \<and> length scale_factors \<noteq> length glyph_positions
      then Inl ContractViolation
      else Inr (pack_glyphs upload orientation
                  (placements glyph_positions glyphs scale_factors) 0 c empty_data))"

text \<open>
  The overload without scale factors, as the header defines it inline: it passes an empty
  array of scale factors.
\<close>

definition set_data_unscaled ::
    "('c \<Rightarrow> Glyph \<Rightarrow> 'c option) \<Rightarrow> 'c \<Rightarrow> vec2 list \<Rightarrow> Glyph list \<Rightarrow>
     glyph_orientation \<Rightarrow> error + nat \<times> PainterAttributeData \<times> 'c" where
  "set_data_unscaled upload c glyph_positions glyphs orientation =
     set_data upload c glyph_positions glyphs [] orientation"

subsection \<open>Uploads in sequence and the chunks of a sequence of glyphs\<close>

text \<open>
  The vocabulary of the statements about \<^verbatim>\<open>set_data\<close>. Uploading a sequence of glyphs
  in order gives the cache after the last one, or \<open>None\<close> as soon as one upload fails.
\<close>

fun upload_all :: "('c \<Rightarrow> Glyph \<Rightarrow> 'c option) \<Rightarrow> 'c \<Rightarrow> Glyph list \<Rightarrow> 'c option" where
  "upload_all upload c [] = Some c"
| "upload_all upload c (g # gs) =
     (case upload c g of None \<Rightarrow> None | Some c' \<Rightarrow> upload_all upload c' gs)"

text \<open>The chunk set that holds the quads of a sequence of placed glyphs, and nothing else.\<close>

definition glyph_chunks :: "glyph_orientation \<Rightarrow> placement list \<Rightarrow> PainterAttributeData" where
  "glyph_chunks orientation pls = foldl (append_glyph orientation) empty_data pls"

text \<open>The placed glyphs of one render type, in order.\<close>

definition of_type :: "nat \<Rightarrow> placement list \<Rightarrow> placement list" where
  "of_type t pls = filter (\<lambda>pl. glyph_type (fst (snd pl)) = t) pls"

subsection \<open>A small batch of glyphs\<close>

text \<open>
  Three glyphs of two render types in a row, and a glyph cache with a number of free
  places: an upload takes one place and fails when none is left.
\<close>

definition example_glyph :: "nat \<Rightarrow> 32 word \<Rightarrow> Glyph" where
  "example_glyph t h =
     \<lparr> glyph_type = t,
       atlas_location = \<lparr> location = (16, 32), location_size = (8, 12), layer = 3 \<rparr>,
       secondary_atlas_location = \<lparr> location = (64, 0), location_size = (8, 12), layer = 5 \<rparr>,
       layout_size = (8, 12),
       glyph_offset = h \<rparr>"

definition example_upload :: "nat \<Rightarrow> Glyph \<Rightarrow> nat option" where
  "example_upload free g = (if free = 0 then None else Some (free - 1))"

definition example_glyphs :: "Glyph list" where
  "example_glyphs = [example_glyph 0 7, example_glyph 1 8, example_glyph 0 9]"

definition example_positions :: "vec2 list" where
  "example_positions = [(3, 4), (13, 4), (23, 4)]"

section \<open>Results\<close>

lemmas stroking_values =
  rounded_joins_closing_edge_def bevel_joins_closing_edge_def miter_joins_closing_edge_def
  edge_closing_edge_def number_with_closing_edge_def rounded_joins_no_closing_edge_def
  bevel_joins_no_closing_edge_def miter_joins_no_closing_edge_def edge_no_closing_edge_def
  rounded_cap_def square_cap_def stroking_data_count_def

lemma number_with_closing_edge_value: "number_with_closing_edge = 4"
  by (simp add: stroking_values)

lemma stroking_slots_value: "stroking_slots = [0, 1, 2, 3, 4, 5, 6, 7, 8, 9]"
  by (simp add: stroking_slots_def stroking_values)


subsection \<open>Default tessellation parameters\<close>

text \<open>
  C10. A default-constructed \<^verbatim>\<open>TessellationParams\<close> has curvature-mode tessellation
  enabled, the threshold \<open>pi / 30\<close> and at most 32 segments for each edge, and these are the
  parameters that the default argument of the constructor of \<^verbatim>\<open>Path\<close> supplies.
\<close>

theorem default_TessellationParams:
  "m_curvature_tessellation TessellationParams_ctor = True
   \<and> m_threshhold TessellationParams_ctor = pi / 30
   \<and> m_max_segments TessellationParams_ctor = 32
   \<and> unat (m_max_segments TessellationParams_ctor) = 32
   \<and> Path_default_tess_params = TessellationParams_ctor"
  by (simp add: TessellationParams_ctor_def M_PI_def Path_default_tess_params_def)

subsection \<open>The slots of the stroking chunk set\<close>

text \<open>
  C5, as the specification states it: the stroking chunk set has 12 slots. The enumeration
  counts 10: four kinds with the closing edge, the same four without it, and two caps.
\<close>

theorem stroking_slot_count_not_12:
  "stroking_data_count \<noteq> 12 \<and> length stroking_slots \<noteq> 12"
  by (simp add: stroking_slots_def stroking_values)

text \<open>
  C5, amended: the stroking chunk set consists of 10 fixed slots, numbered 0 to 9 in the
  order rounded-join, bevel-join, miter-join, edge with the closing edge, the same four
  without the closing edge, then rounded-cap and square-cap. For a slot \<open>v\<close> with the closing
  edge, \<open>without_closing_edge v\<close> is \<open>v\<close> plus the fixed offset \<open>number_with_closing_edge = 4\<close>,
  which is the slot of the same kind without the closing edge; every other slot (already
  without the closing edge, or a cap) is mapped to itself.
\<close>

theorem stroking_slots_and_without_closing_edge:
  "stroking_data_count = 10
   \<and> stroking_slots = [0..<stroking_data_count]
   \<and> number_with_closing_edge = 4
   \<and> without_closing_edge rounded_joins_closing_edge = rounded_joins_no_closing_edge
   \<and> without_closing_edge bevel_joins_closing_edge = bevel_joins_no_closing_edge
   \<and> without_closing_edge miter_joins_closing_edge = miter_joins_no_closing_edge
   \<and> without_closing_edge edge_closing_edge = edge_no_closing_edge
   \<and> (\<forall>v. v < number_with_closing_edge \<longrightarrow>
          without_closing_edge v = v + number_with_closing_edge)
   \<and> (\<forall>v. number_with_closing_edge \<le> v \<longrightarrow> without_closing_edge v = v)"
proof -
  have count: "stroking_data_count = 10"
    by (simp add: stroking_values)
  have "[0..<10] = [0, 1, 2, 3, 4, 5, 6, 7, 8, 9::nat]"
    by (simp add: upt_rec)
  then have slots: "stroking_slots = [0..<stroking_data_count]"
    by (simp add: count stroking_slots_value)
  have pairs:
    "without_closing_edge rounded_joins_closing_edge = rounded_joins_no_closing_edge"
    "without_closing_edge bevel_joins_closing_edge = bevel_joins_no_closing_edge"
    "without_closing_edge miter_joins_closing_edge = miter_joins_no_closing_edge"
    "without_closing_edge edge_closing_edge = edge_no_closing_edge"
    by (simp_all add: without_closing_edge_def stroking_values)
  have shift: "\<forall>v. v < number_with_closing_edge \<longrightarrow>
      without_closing_edge v = v + number_with_closing_edge"
    by (simp add: without_closing_edge_def)
  have keep: "\<forall>v. number_with_closing_edge \<le> v \<longrightarrow> without_closing_edge v = v"
    by (simp add: without_closing_edge_def)
  from count slots number_with_closing_edge_value pairs shift keep show ?thesis
    by blast
qed

text \<open>
  The theorem at concrete slots: the miter joins with the closing edge (slot 2) go to slot 6,
  the edges without the closing edge (slot 7) and the square caps (slot 9) stay.
\<close>

theorem stroking_slots_and_without_closing_edge_witness:
  "(2::nat) < 4 \<and> without_closing_edge 2 = 6
   \<and> (4::nat) \<le> 7 \<and> without_closing_edge 7 = 7
   \<and> (4::nat) \<le> 9 \<and> without_closing_edge 9 = 9"
proof -
  note t = stroking_slots_and_without_closing_edge
  from t have four: "number_with_closing_edge = 4"
    by blast
  from t have shift: "2 < number_with_closing_edge \<longrightarrow>
      without_closing_edge 2 = 2 + number_with_closing_edge"
    by blast
  from t have keep7: "number_with_closing_edge \<le> 7 \<longrightarrow> without_closing_edge 7 = 7"
    by blast
  from t have keep9: "number_with_closing_edge \<le> 9 \<longrightarrow> without_closing_edge 9 = 9"
    by blast
  from four shift keep7 keep9 show ?thesis
    by simp
qed

subsection \<open>The loop of the glyph \<^verbatim>\<open>set_data\<close>\<close>


lemma pack_glyphs_all:
  "upload_all upload c (map (\<lambda>pl. fst (snd pl)) pls) = Some c' \<Longrightarrow>
   pack_glyphs upload orientation pls i c d =
     (i + length pls, foldl (append_glyph orientation) d pls, c')"
proof (induction pls arbitrary: i c d)
  case Nil
  then show ?case by simp
next
  case (Cons pl pls)
  then show ?case by (auto split: option.splits)
qed

lemma pack_glyphs_first_failure:
  "k < length pls \<Longrightarrow>
   upload_all upload c (map (\<lambda>pl. fst (snd pl)) (take k pls)) = Some ck \<Longrightarrow>
   upload ck (fst (snd (pls ! k))) = None \<Longrightarrow>
   pack_glyphs upload orientation pls i c d =
     (i + k, foldl (append_glyph orientation) d (take k pls), ck)"
proof (induction pls arbitrary: i c d k)
  case Nil
  then show ?case by simp
next
  case (Cons pl pls)
  show ?case
  proof (cases k)
    case 0
    with Cons.prems show ?thesis by simp
  next
    case (Suc j)
    with Cons.prems obtain c1 where c1: "upload c (fst (snd pl)) = Some c1"
      and rest: "upload_all upload c1 (map (\<lambda>pl. fst (snd pl)) (take j pls)) = Some ck"
      by (auto split: option.splits)
    from Cons.prems Suc have "j < length pls" "upload ck (fst (snd (pls ! j))) = None"
      by simp_all
    from Cons.IH [OF this(1) rest this(2)] c1 Suc show ?thesis
      by simp
  qed
qed

lemma pack_glyphs_total:
  "\<exists>k c'. k \<le> length pls
     \<and> pack_glyphs upload orientation pls i c d =
         (i + k, foldl (append_glyph orientation) d (take k pls), c')
     \<and> upload_all upload c (map (\<lambda>pl. fst (snd pl)) (take k pls)) = Some c'
     \<and> (k < length pls \<longrightarrow> upload c' (fst (snd (pls ! k))) = None)"
proof (induction pls arbitrary: i c d)
  case Nil
  then show ?case by simp
next
  case (Cons pl pls)
  show ?case
  proof (cases "upload c (fst (snd pl))")
    case None
    then have "0 \<le> length (pl # pls)
     \<and> pack_glyphs upload orientation (pl # pls) i c d =
         (i + 0, foldl (append_glyph orientation) d (take 0 (pl # pls)), c)
     \<and> upload_all upload c (map (\<lambda>pl. fst (snd pl)) (take 0 (pl # pls))) = Some c
     \<and> (0 < length (pl # pls) \<longrightarrow> upload c (fst (snd ((pl # pls) ! 0))) = None)"
      by simp
    then show ?thesis by blast
  next
    case (Some c1)
    from Cons.IH [of "Suc i" c1 "append_glyph orientation d pl"]
    obtain k c' where k: "k \<le> length pls"
      and p: "pack_glyphs upload orientation pls (Suc i) c1 (append_glyph orientation d pl) =
         (Suc i + k, foldl (append_glyph orientation) (append_glyph orientation d pl) (take k pls), c')"
      and u: "upload_all upload c1 (map (\<lambda>pl. fst (snd pl)) (take k pls)) = Some c'"
      and f: "k < length pls \<longrightarrow> upload c' (fst (snd (pls ! k))) = None"
      by blast
    have "Suc k \<le> length (pl # pls)
     \<and> pack_glyphs upload orientation (pl # pls) i c d =
         (i + Suc k, foldl (append_glyph orientation) d (take (Suc k) (pl # pls)), c')
     \<and> upload_all upload c (map (\<lambda>pl. fst (snd pl)) (take (Suc k) (pl # pls))) = Some c'
     \<and> (Suc k < length (pl # pls) \<longrightarrow> upload c' (fst (snd ((pl # pls) ! Suc k))) = None)"
      using k p u f Some by simp
    then show ?thesis by blast
  qed
qed

lemma length_placements:
  "length glyphs = length glyph_positions \<Longrightarrow>
   scale_factors = [] \<or> length scale_factors = length glyph_positions \<Longrightarrow>
   length (placements glyph_positions glyphs scale_factors) = length glyphs"
  by (auto simp: placements_def glyph_scales_def)

lemma glyphs_of_placements:
  "length glyphs = length glyph_positions \<Longrightarrow>
   scale_factors = [] \<or> length scale_factors = length glyph_positions \<Longrightarrow>
   map (\<lambda>pl. fst (snd pl)) (placements glyph_positions glyphs scale_factors) = glyphs"
  by (auto simp: placements_def glyph_scales_def intro!: nth_equalityI)

lemma glyph_scales_drop:
  "scale_factors = [] \<or> length scale_factors = n \<Longrightarrow>
   glyph_scales (n - k) (drop k scale_factors) = drop k (glyph_scales n scale_factors)"
  by (auto simp: glyph_scales_def)

lemma placements_drop:
  "length glyphs = length glyph_positions \<Longrightarrow>
   scale_factors = [] \<or> length scale_factors = length glyph_positions \<Longrightarrow>
   placements (drop k glyph_positions) (drop k glyphs) (drop k scale_factors) =
   drop k (placements glyph_positions glyphs scale_factors)"
  by (simp add: placements_def glyph_scales_drop drop_zip)


lemma length_pack_glyph_attributes [simp]:
  "length (pack_glyph_attributes orientation p g s) = 4"
  by (simp add: pack_glyph_attributes_def glyph_corners_def location_corners_def
      rect_corners_def)

lemma length_pack_glyph_indices [simp]: "length (pack_glyph_indices first) = 6"
  by (simp add: pack_glyph_indices_def)

lemma of_type_Cons:
  "of_type t (pl # pls) =
     (if glyph_type (fst (snd pl)) = t then pl # of_type t pls else of_type t pls)"
  by (simp add: of_type_def)

lemma of_type_Nil [simp]: "of_type t [] = []"
  by (simp add: of_type_def)

lemma append_glyph_attributes:
  "attribute_data_chunk (append_glyph orientation d pl) t =
     (if glyph_type (fst (snd pl)) = t
      then attribute_data_chunk d t
           @ pack_glyph_attributes orientation (fst pl) (fst (snd pl)) (snd (snd pl))
      else attribute_data_chunk d t)"
  by (cases pl) (auto simp: append_glyph_def Let_def)

lemma append_glyph_indices:
  "index_data_chunk (append_glyph orientation d pl) t =
     (if glyph_type (fst (snd pl)) = t
      then index_data_chunk d t @ pack_glyph_indices (length (attribute_data_chunk d t))
      else index_data_chunk d t)"
  by (cases pl) (auto simp: append_glyph_def Let_def)

lemma append_glyph_increment_z:
  "increment_z_value (append_glyph orientation d pl) t =
     (if glyph_type (fst (snd pl)) = t then increment_z_value d t + 1
      else increment_z_value d t)"
  by (cases pl) (auto simp: append_glyph_def Let_def)

lemma foldl_append_glyph_attributes:
  "attribute_data_chunk (foldl (append_glyph orientation) d pls) t =
     attribute_data_chunk d t
     @ concat (map (\<lambda>pl. pack_glyph_attributes orientation (fst pl) (fst (snd pl)) (snd (snd pl)))
         (of_type t pls))"
  by (induction pls arbitrary: d) (simp_all add: of_type_Cons append_glyph_attributes)

lemma length_concat_quads:
  "length (concat (map (\<lambda>pl. pack_glyph_attributes orientation (fst pl) (fst (snd pl)) (snd (snd pl))) pls))
     = 4 * length pls"
  by (induction pls) simp_all

lemma foldl_append_glyph_increment_z:
  "increment_z_value (foldl (append_glyph orientation) d pls) t =
     increment_z_value d t + length (of_type t pls)"
  by (induction pls arbitrary: d) (simp_all add: of_type_Cons append_glyph_increment_z)

lemma upt_Suc_shift: "[0..<Suc n] = 0 # map Suc [0..<n]"
  by (simp add: upt_conv_Cons map_Suc_upt del: upt_Suc)

lemma foldl_append_glyph_indices:
  "index_data_chunk (foldl (append_glyph orientation) d pls) t =
     index_data_chunk d t
     @ concat (map (\<lambda>j. pack_glyph_indices (length (attribute_data_chunk d t) + 4 * j))
         [0..<length (of_type t pls)])"
proof (induction pls arbitrary: d)
  case Nil
  then show ?case by simp
next
  case (Cons pl pls)
  show ?case
  proof (cases "glyph_type (fst (snd pl)) = t")
    case True
    have "index_data_chunk (foldl (append_glyph orientation) d (pl # pls)) t =
        index_data_chunk (append_glyph orientation d pl) t
        @ concat (map (\<lambda>j. pack_glyph_indices
            (length (attribute_data_chunk (append_glyph orientation d pl) t) + 4 * j))
          [0..<length (of_type t pls)])"
      using Cons.IH [of "append_glyph orientation d pl"] by simp
    also have "\<dots> = index_data_chunk d t
        @ pack_glyph_indices (length (attribute_data_chunk d t))
        @ concat (map (\<lambda>j. pack_glyph_indices (length (attribute_data_chunk d t) + 4 * Suc j))
          [0..<length (of_type t pls)])"
      using True by (simp add: append_glyph_attributes append_glyph_indices add.assoc)
    also have "\<dots> = index_data_chunk d t
        @ concat (map (\<lambda>j. pack_glyph_indices (length (attribute_data_chunk d t) + 4 * j))
          [0..<Suc (length (of_type t pls))])"
      unfolding upt_Suc_shift [of "length (of_type t pls)"]
      by (simp add: comp_def)
    finally show ?thesis using True by (simp add: of_type_Cons)
  next
    case False
    then show ?thesis
      using Cons.IH [of "append_glyph orientation d pl"]
      by (simp add: of_type_Cons append_glyph_attributes append_glyph_indices)
  qed
qed

lemma glyph_chunks_attributes:
  "attribute_data_chunk (glyph_chunks orientation pls) t =
     concat (map (\<lambda>pl. pack_glyph_attributes orientation (fst pl) (fst (snd pl)) (snd (snd pl)))
       (of_type t pls))"
  by (simp add: glyph_chunks_def foldl_append_glyph_attributes empty_data_def)

lemma glyph_chunks_indices:
  "index_data_chunk (glyph_chunks orientation pls) t =
     concat (map (\<lambda>j. pack_glyph_indices (4 * j)) [0..<length (of_type t pls)])"
  by (simp add: glyph_chunks_def foldl_append_glyph_indices empty_data_def)

lemma glyph_chunks_increment_z:
  "increment_z_value (glyph_chunks orientation pls) t = length (of_type t pls)"
  by (simp add: glyph_chunks_def foldl_append_glyph_increment_z empty_data_def)

lemma glyph_chunks_length_attributes:
  "length (attribute_data_chunk (glyph_chunks orientation pls) t) = 4 * length (of_type t pls)"
  by (simp add: glyph_chunks_attributes length_concat_quads)

lemma length_concat_index_quads:
  "length (concat (map (\<lambda>j. pack_glyph_indices (f j)) js)) = 6 * length js"
  by (induction js) simp_all

lemma glyph_chunks_length_indices:
  "length (index_data_chunk (glyph_chunks orientation pls) t) = 6 * length (of_type t pls)"
  by (simp add: glyph_chunks_indices length_concat_index_quads)

lemma glyph_chunks_indices_in_range:
  "i \<in> set (index_data_chunk (glyph_chunks orientation pls) t) \<Longrightarrow>
   i < length (attribute_data_chunk (glyph_chunks orientation pls) t)"
  by (auto simp: glyph_chunks_indices glyph_chunks_length_attributes pack_glyph_indices_def)

text \<open>
  C1. A call of the glyph \<^verbatim>\<open>set_data\<close> with \<open>N = length glyphs\<close> glyphs (the arrays
  obeying the contract of the header) raises no exception: it returns a count \<open>k \<le> N\<close>
  together with the chunks of the glyphs before \<open>k\<close>. If every glyph uploads, it returns
  \<open>N\<close>. If glyph \<open>k\<close> is the first whose upload fails (the glyphs before it upload, one after
  the other, and glyph \<open>k\<close> does not upload into the cache they leave), it returns \<open>k\<close> and
  the chunks hold exactly the quads of the glyphs \<open>[0, k)\<close>; a later call on the rest
  \<open>[k, N)\<close> with a cache in which they all upload returns \<open>N - k\<close>. The chunks of a prefix
  are complete and valid: for each render type the attribute chunk is the concatenation of
  the quads of the glyphs of that type, the index chunk has six indices for each of them, all
  of them inside the attribute chunk, and the z-increment is their number.
\<close>

theorem set_data_partial_failure:
  assumes sizes: "length glyphs = length glyph_positions"
    and scales: "scale_factors = [] \<or> length scale_factors = length glyph_positions"
  shows
    "(\<exists>k c'. k \<le> length glyphs
        \<and> set_data upload c glyph_positions glyphs scale_factors orientation =
            Inr (k, glyph_chunks orientation
                      (take k (placements glyph_positions glyphs scale_factors)), c'))
     \<and> (\<forall>c'. upload_all upload c glyphs = Some c' \<longrightarrow>
          set_data upload c glyph_positions glyphs scale_factors orientation =
            Inr (length glyphs,
                 glyph_chunks orientation (placements glyph_positions glyphs scale_factors), c'))
     \<and> (\<forall>k ck. k < length glyphs \<and> upload_all upload c (take k glyphs) = Some ck
            \<and> upload ck (glyphs ! k) = None \<longrightarrow>
          set_data upload c glyph_positions glyphs scale_factors orientation =
            Inr (k, glyph_chunks orientation
                      (take k (placements glyph_positions glyphs scale_factors)), ck)
          \<and> (\<forall>c2 c3. upload_all upload c2 (drop k glyphs) = Some c3 \<longrightarrow>
                set_data upload c2 (drop k glyph_positions) (drop k glyphs)
                    (drop k scale_factors) orientation =
                  Inr (length glyphs - k,
                       glyph_chunks orientation
                         (drop k (placements glyph_positions glyphs scale_factors)), c3)))
     \<and> (\<forall>k t. attribute_data_chunk
                 (glyph_chunks orientation
                    (take k (placements glyph_positions glyphs scale_factors))) t =
               concat (map (\<lambda>pl. pack_glyph_attributes orientation
                                     (fst pl) (fst (snd pl)) (snd (snd pl)))
                 (of_type t (take k (placements glyph_positions glyphs scale_factors))))
           \<and> index_data_chunk
                 (glyph_chunks orientation
                    (take k (placements glyph_positions glyphs scale_factors))) t =
               concat (map (\<lambda>j. pack_glyph_indices (4 * j))
                 [0..<length (of_type t
                    (take k (placements glyph_positions glyphs scale_factors)))])
           \<and> increment_z_value
                 (glyph_chunks orientation
                    (take k (placements glyph_positions glyphs scale_factors))) t =
               length (of_type t (take k (placements glyph_positions glyphs scale_factors)))
           \<and> (\<forall>i \<in> set (index_data_chunk
                 (glyph_chunks orientation
                    (take k (placements glyph_positions glyphs scale_factors))) t).
                i < length (attribute_data_chunk
                 (glyph_chunks orientation
                    (take k (placements glyph_positions glyphs scale_factors))) t)))"
proof -
  let ?pls = "placements glyph_positions glyphs scale_factors"
  let ?run = "set_data upload c glyph_positions glyphs scale_factors orientation"
  have len: "length ?pls = length glyphs"
    using sizes scales by (rule length_placements)
  have gs: "map (\<lambda>pl. fst (snd pl)) ?pls = glyphs"
    using sizes scales by (rule glyphs_of_placements)
  have gs_take: "map (\<lambda>pl. fst (snd pl)) (take k ?pls) = take k glyphs" for k
    by (simp add: take_map [symmetric] gs)
  have run: "?run = Inr (pack_glyphs upload orientation ?pls 0 c empty_data)"
    using sizes scales by (auto simp: set_data_def)
  have total: "\<exists>k c'. k \<le> length glyphs
      \<and> ?run = Inr (k, glyph_chunks orientation (take k ?pls), c')"
  proof -
    from pack_glyphs_total [of ?pls upload orientation 0 c empty_data]
    obtain k c' where "k \<le> length ?pls"
      and "pack_glyphs upload orientation ?pls 0 c empty_data =
            (0 + k, foldl (append_glyph orientation) empty_data (take k ?pls), c')"
      by blast
    then have "k \<le> length glyphs
        \<and> ?run = Inr (k, glyph_chunks orientation (take k ?pls), c')"
      by (simp add: run len glyph_chunks_def)
    then show ?thesis by blast
  qed
  have all: "?run = Inr (length glyphs, glyph_chunks orientation ?pls, c')"
    if "upload_all upload c glyphs = Some c'" for c'
    using pack_glyphs_all [of upload c ?pls c' orientation 0 empty_data] that
    by (simp add: run gs len glyph_chunks_def)
  have first: "?run = Inr (k, glyph_chunks orientation (take k ?pls), ck)"
    if "k < length glyphs" "upload_all upload c (take k glyphs) = Some ck"
      "upload ck (glyphs ! k) = None" for k ck
  proof -
    have "fst (snd (?pls ! k)) = glyphs ! k"
      using that(1) len gs by (metis nth_map)
    with pack_glyphs_first_failure [of k ?pls upload c ck orientation 0 empty_data] that
    show ?thesis
      by (simp add: run len gs_take glyph_chunks_def)
  qed
  have follow: "set_data upload c2 (drop k glyph_positions) (drop k glyphs)
        (drop k scale_factors) orientation =
      Inr (length glyphs - k, glyph_chunks orientation (drop k ?pls), c3)"
    if "upload_all upload c2 (drop k glyphs) = Some c3" for k c2 c3
  proof -
    have s1: "length (drop k glyphs) = length (drop k glyph_positions)"
      using sizes by simp
    have s2: "drop k scale_factors = []
        \<or> length (drop k scale_factors) = length (drop k glyph_positions)"
      using scales by auto
    have pls: "placements (drop k glyph_positions) (drop k glyphs) (drop k scale_factors)
        = drop k ?pls"
      using sizes scales by (rule placements_drop)
    have "map (\<lambda>pl. fst (snd pl)) (drop k ?pls) = drop k glyphs"
      by (simp add: drop_map [symmetric] gs)
    with pack_glyphs_all [of upload c2 "drop k ?pls" c3 orientation 0 empty_data] that
    have "pack_glyphs upload orientation (drop k ?pls) 0 c2 empty_data =
        (length glyphs - k, glyph_chunks orientation (drop k ?pls), c3)"
      by (simp add: len glyph_chunks_def)
    then show ?thesis
      using s1 s2 by (auto simp: set_data_def pls)
  qed
  have valid: "\<forall>i \<in> set (index_data_chunk (glyph_chunks orientation (take k ?pls)) t).
      i < length (attribute_data_chunk (glyph_chunks orientation (take k ?pls)) t)" for k t
    using glyph_chunks_indices_in_range by blast
  from total all first follow valid show ?thesis
    by (simp only: glyph_chunks_attributes glyph_chunks_indices glyph_chunks_increment_z)
       blast
qed

text \<open>
  C1 on the small batch with two free places in the cache: the third glyph fails, the call
  returns 2, and the call on the rest with a recovered cache returns \<open>3 - 2 = 1\<close>.
\<close>

theorem set_data_partial_failure_witness:
  "length example_glyphs = length example_positions
   \<and> (2::nat) < length example_glyphs
   \<and> upload_all example_upload 2 (take 2 example_glyphs) = Some 0
   \<and> example_upload 0 (example_glyphs ! 2) = None
   \<and> set_data example_upload 2 example_positions example_glyphs [] y_increases_downwards =
       Inr (2, glyph_chunks y_increases_downwards
                 (take 2 (placements example_positions example_glyphs [])), 0)
   \<and> upload_all example_upload 4 (drop 2 example_glyphs) = Some 3
   \<and> set_data example_upload 4 (drop 2 example_positions) (drop 2 example_glyphs) (drop 2 [])
         y_increases_downwards =
       Inr (length example_glyphs - 2,
            glyph_chunks y_increases_downwards
              (drop 2 (placements example_positions example_glyphs [])), 3)
   \<and> length example_glyphs - 2 = 1"
proof -
  have sizes: "length example_glyphs = length example_positions"
    by (simp add: example_glyphs_def example_positions_def)
  have scales: "([]::real list) = [] \<or> length ([]::real list) = length example_positions"
    by simp
  have k: "(2::nat) < length example_glyphs"
    by (simp add: example_glyphs_def)
  have two: "take 2 example_glyphs = [example_glyph 0 7, example_glyph 1 8]"
    "drop 2 example_glyphs = [example_glyph 0 9]"
    "example_glyphs ! 2 = example_glyph 0 9"
    by (simp_all add: example_glyphs_def numeral_2_eq_2)
  have up: "upload_all example_upload 2 (take 2 example_glyphs) = Some 0"
    by (simp add: two example_upload_def)
  have fail: "example_upload 0 (example_glyphs ! 2) = None"
    by (simp add: example_upload_def)
  have again: "upload_all example_upload 4 (drop 2 example_glyphs) = Some 3"
    by (simp add: two example_upload_def)
  note t = set_data_partial_failure [OF sizes scales, of example_upload 2 y_increases_downwards]
  from t have "2 < length example_glyphs
      \<and> upload_all example_upload 2 (take 2 example_glyphs) = Some 0
      \<and> example_upload 0 (example_glyphs ! 2) = None \<longrightarrow>
    set_data example_upload 2 example_positions example_glyphs [] y_increases_downwards =
       Inr (2, glyph_chunks y_increases_downwards
                 (take 2 (placements example_positions example_glyphs [])), 0)
    \<and> (\<forall>c2 c3. upload_all example_upload c2 (drop 2 example_glyphs) = Some c3 \<longrightarrow>
          set_data example_upload c2 (drop 2 example_positions) (drop 2 example_glyphs)
              (drop 2 []) y_increases_downwards =
            Inr (length example_glyphs - 2,
                 glyph_chunks y_increases_downwards
                   (drop 2 (placements example_positions example_glyphs [])), c3))"
    by blast
  with k up fail again have
    "set_data example_upload 2 example_positions example_glyphs [] y_increases_downwards =
       Inr (2, glyph_chunks y_increases_downwards
                 (take 2 (placements example_positions example_glyphs [])), 0)
     \<and> set_data example_upload 4 (drop 2 example_positions) (drop 2 example_glyphs) (drop 2 [])
         y_increases_downwards =
       Inr (length example_glyphs - 2,
            glyph_chunks y_increases_downwards
              (drop 2 (placements example_positions example_glyphs [])), 3)"
    by blast
  moreover have "length example_glyphs - 2 = 1"
    by (simp add: example_glyphs_def)
  ultimately show ?thesis
    using sizes k up fail again by blast
qed

subsection \<open>The layout of a glyph attribute\<close>

lemma set_data_Inr:
  assumes "set_data upload c glyph_positions glyphs scale_factors orientation = Inr (k, d, c')"
  shows "length glyphs = length glyph_positions"
    and "scale_factors = [] \<or> length scale_factors = length glyph_positions"
    and "k \<le> length glyphs"
    and "d = glyph_chunks orientation (take k (placements glyph_positions glyphs scale_factors))"
proof -
  let ?pls = "placements glyph_positions glyphs scale_factors"
  from assms show sizes: "length glyphs = length glyph_positions"
    by (auto simp: set_data_def split: if_splits)
  from assms show scales: "scale_factors = [] \<or> length scale_factors = length glyph_positions"
    by (auto simp: set_data_def split: if_splits)
  from assms sizes scales
  have run: "pack_glyphs upload orientation ?pls 0 c empty_data = (k, d, c')"
    by (auto simp: set_data_def split: if_splits)
  from pack_glyphs_total [of ?pls upload orientation 0 c empty_data]
  obtain k0 c0 where "k0 \<le> length ?pls"
    and "pack_glyphs upload orientation ?pls 0 c empty_data =
          (0 + k0, foldl (append_glyph orientation) empty_data (take k0 ?pls), c0)"
    by blast
  with run have "k \<le> length ?pls"
    and "d = foldl (append_glyph orientation) empty_data (take k ?pls)"
    by auto
  then show "k \<le> length glyphs"
    and "d = glyph_chunks orientation (take k ?pls)"
    using length_placements [OF sizes scales] by (simp_all add: glyph_chunks_def)
qed

lemma nth_placements:
  assumes "length glyphs = length glyph_positions"
    and "scale_factors = [] \<or> length scale_factors = length glyph_positions"
    and "i < length glyphs"
  shows "placements glyph_positions glyphs scale_factors ! i =
    (glyph_positions ! i, glyphs ! i,
     glyph_scales (length glyph_positions) scale_factors ! i)"
  using assms by (auto simp: placements_def glyph_scales_def)

lemma length_rect_corners [simp]: "length (rect_corners a b) = 4"
  by (simp add: rect_corners_def)

lemma length_location_corners [simp]: "length (location_corners a) = 4"
  by (simp add: location_corners_def)

lemma pack_glyph_attributes_corner:
  assumes "a \<in> set (pack_glyph_attributes orientation p g s)"
  shows "\<exists>corner < 4. a = pack_glyph_attribute g
      (location_corners (atlas_location g) ! corner)
      (location_corners (secondary_atlas_location g) ! corner)
      (rect_corners p (glyph_far_corner orientation p g s) ! corner)"
proof -
  have len: "length (glyph_corners orientation p g s) = 4"
    by (simp add: glyph_corners_def)
  from assms obtain corner where c: "corner < 4"
    and a: "a = (\<lambda>(t, t2, q). pack_glyph_attribute g t t2 q)
                  (glyph_corners orientation p g s ! corner)"
    by (auto simp: pack_glyph_attributes_def in_set_conv_nth len)
  have "glyph_corners orientation p g s ! corner =
      (location_corners (atlas_location g) ! corner,
       location_corners (secondary_atlas_location g) ! corner,
       rect_corners p (glyph_far_corner orientation p g s) ! corner)"
    using c by (simp add: glyph_corners_def)
  with a c show ?thesis by auto
qed

text \<open>
  C6. Every attribute of every chunk that the glyph \<^verbatim>\<open>set_data\<close> produces belongs to a
  corner of one of the glyphs it packed, of the render type of the chunk: primary \<open>.xy\<close> is
  that corner of the glyph's texel rectangle in the primary atlas, primary \<open>.zw\<close> that corner
  of its texel rectangle in the secondary atlas, secondary \<open>.xyz\<close> is the position of the
  corner in item space (a point of the plane: \<open>.xy\<close> its two coordinates, \<open>.z\<close> zero),
  secondary \<open>.w\<close> is 0, uint \<open>.y\<close> is the glyph's handle, uint \<open>.z\<close> and \<open>.w\<close> are its layers
  in the primary and in the secondary atlas, and the unused uint \<open>.x\<close> is 0.
\<close>

theorem glyph_attribute_layout:
  assumes run: "set_data upload c glyph_positions glyphs scale_factors orientation =
      Inr (k, d, c')"
    and a: "a \<in> set (attribute_data_chunk d t)"
  shows "\<exists>i corner. i < k \<and> i < length glyphs \<and> corner < 4
     \<and> glyph_type (glyphs ! i) = t
     \<and> (vec_x (m_primary_attrib a), vec_y (m_primary_attrib a)) =
         location_corners (atlas_location (glyphs ! i)) ! corner
     \<and> (vec_z (m_primary_attrib a), vec_w (m_primary_attrib a)) =
         location_corners (secondary_atlas_location (glyphs ! i)) ! corner
     \<and> (vec_x (m_secondary_attrib a), vec_y (m_secondary_attrib a)) =
         rect_corners (glyph_positions ! i)
           (glyph_far_corner orientation (glyph_positions ! i) (glyphs ! i)
              (glyph_scales (length glyph_positions) scale_factors ! i)) ! corner
     \<and> vec_z (m_secondary_attrib a) = 0
     \<and> vec_w (m_secondary_attrib a) = 0
     \<and> vec_x (m_uint_attrib a) = 0
     \<and> vec_y (m_uint_attrib a) = glyph_offset (glyphs ! i)
     \<and> vec_z (m_uint_attrib a) = layer (atlas_location (glyphs ! i))
     \<and> vec_w (m_uint_attrib a) = layer (secondary_atlas_location (glyphs ! i))"
proof -
  let ?pls = "placements glyph_positions glyphs scale_factors"
  note facts = set_data_Inr [OF run]
  from a facts(4) obtain pl where pl: "pl \<in> set (of_type t (take k ?pls))"
    and apl: "a \<in> set (pack_glyph_attributes orientation (fst pl) (fst (snd pl)) (snd (snd pl)))"
    by (auto simp: glyph_chunks_attributes)
  from pl have ty: "glyph_type (fst (snd pl)) = t" and "pl \<in> set (take k ?pls)"
    by (simp_all add: of_type_def)
  then obtain i where i: "i < length (take k ?pls)" and pli: "take k ?pls ! i = pl"
    by (auto simp: in_set_conv_nth)
  from i facts(3) have ik: "i < k" and il: "i < length glyphs"
    using length_placements [OF facts(1) facts(2)] by simp_all
  from pli ik have "pl = ?pls ! i"
    by simp
  with nth_placements [OF facts(1) facts(2) il]
  have pl_eq: "pl = (glyph_positions ! i, glyphs ! i,
      glyph_scales (length glyph_positions) scale_factors ! i)"
    by simp
  from pack_glyph_attributes_corner [OF apl] obtain corner where corner: "corner < 4"
    and a_eq: "a = pack_glyph_attribute (fst (snd pl))
      (location_corners (atlas_location (fst (snd pl))) ! corner)
      (location_corners (secondary_atlas_location (fst (snd pl))) ! corner)
      (rect_corners (fst pl) (glyph_far_corner orientation (fst pl) (fst (snd pl))
         (snd (snd pl))) ! corner)"
    by blast
  have "i < k \<and> i < length glyphs \<and> corner < 4
     \<and> glyph_type (glyphs ! i) = t
     \<and> (vec_x (m_primary_attrib a), vec_y (m_primary_attrib a)) =
         location_corners (atlas_location (glyphs ! i)) ! corner
     \<and> (vec_z (m_primary_attrib a), vec_w (m_primary_attrib a)) =
         location_corners (secondary_atlas_location (glyphs ! i)) ! corner
     \<and> (vec_x (m_secondary_attrib a), vec_y (m_secondary_attrib a)) =
         rect_corners (glyph_positions ! i)
           (glyph_far_corner orientation (glyph_positions ! i) (glyphs ! i)
              (glyph_scales (length glyph_positions) scale_factors ! i)) ! corner
     \<and> vec_z (m_secondary_attrib a) = 0
     \<and> vec_w (m_secondary_attrib a) = 0
     \<and> vec_x (m_uint_attrib a) = 0
     \<and> vec_y (m_uint_attrib a) = glyph_offset (glyphs ! i)
     \<and> vec_z (m_uint_attrib a) = layer (atlas_location (glyphs ! i))
     \<and> vec_w (m_uint_attrib a) = layer (secondary_atlas_location (glyphs ! i))"
    using ik il corner ty by (simp add: a_eq pl_eq pack_glyph_attribute_def)
  then show ?thesis by blast
qed

lemma example_placements:
  "placements example_positions example_glyphs [] =
     [((3, 4), example_glyph 0 7, 1), ((13, 4), example_glyph 1 8, 1),
      ((23, 4), example_glyph 0 9, 1)]"
  by (simp add: placements_def glyph_scales_def example_positions_def example_glyphs_def
      numeral_3_eq_3)

lemma example_run:
  "set_data example_upload 2 example_positions example_glyphs [] y_increases_upwards =
     Inr (2, glyph_chunks y_increases_upwards
               (take 2 (placements example_positions example_glyphs [])), 0)"
  by (simp add: set_data_def example_placements glyph_chunks_def example_upload_def)
     (simp add: example_positions_def example_glyphs_def)

text \<open>
  C6 on the small batch: the attribute of the far corner of the first glyph, placed at
  \<open>(3, 4)\<close> with the vertical axis increasing upwards.
\<close>

theorem glyph_attribute_layout_witness:
  "set_data example_upload 2 example_positions example_glyphs [] y_increases_upwards =
     Inr (2, glyph_chunks y_increases_upwards
               (take 2 (placements example_positions example_glyphs [])), 0)
   \<and> pack_glyph_attribute (example_glyph 0 7) (24, 44) (72, 12) (11, 16)
       \<in> set (attribute_data_chunk
                (glyph_chunks y_increases_upwards
                   (take 2 (placements example_positions example_glyphs []))) 0)
   \<and> m_primary_attrib (pack_glyph_attribute (example_glyph 0 7) (24, 44) (72, 12) (11, 16))
       = vec4 24 44 72 12
   \<and> m_secondary_attrib (pack_glyph_attribute (example_glyph 0 7) (24, 44) (72, 12) (11, 16))
       = vec4 11 16 0 0
   \<and> m_uint_attrib (pack_glyph_attribute (example_glyph 0 7) (24, 44) (72, 12) (11, 16))
       = vec4 0 7 3 5
   \<and> (\<exists>i corner. i < 2 \<and> i < length example_glyphs \<and> corner < 4
     \<and> glyph_type (example_glyphs ! i) = 0
     \<and> (24, 44) = location_corners (atlas_location (example_glyphs ! i)) ! corner
     \<and> (72, 12) = location_corners (secondary_atlas_location (example_glyphs ! i)) ! corner
     \<and> (11, 16) =
         rect_corners (example_positions ! i)
           (glyph_far_corner y_increases_upwards (example_positions ! i) (example_glyphs ! i)
              (glyph_scales (length example_positions) [] ! i)) ! corner
     \<and> glyph_offset (example_glyphs ! i) = 7
     \<and> layer (atlas_location (example_glyphs ! i)) = 3
     \<and> layer (secondary_atlas_location (example_glyphs ! i)) = 5)"
proof -
  let ?a = "pack_glyph_attribute (example_glyph 0 7) (24, 44) (72, 12) (11, 16)"
  let ?d = "glyph_chunks y_increases_upwards
      (take 2 (placements example_positions example_glyphs []))"
  have mem: "?a \<in> set (attribute_data_chunk ?d 0)"
    by (simp add: glyph_chunks_attributes example_placements of_type_def example_glyph_def
        pack_glyph_attributes_def glyph_corners_def location_corners_def rect_corners_def
        glyph_far_corner_def vec2_add_def)
  have fields: "m_primary_attrib ?a = vec4 24 44 72 12"
    "m_secondary_attrib ?a = vec4 11 16 0 0"
    "m_uint_attrib ?a = vec4 0 7 3 5"
    by (simp_all add: pack_glyph_attribute_def example_glyph_def)
  from glyph_attribute_layout [OF example_run mem]
  have "\<exists>i corner. i < 2 \<and> i < length example_glyphs \<and> corner < 4
     \<and> glyph_type (example_glyphs ! i) = 0
     \<and> (24, 44) = location_corners (atlas_location (example_glyphs ! i)) ! corner
     \<and> (72, 12) = location_corners (secondary_atlas_location (example_glyphs ! i)) ! corner
     \<and> (11, 16) =
         rect_corners (example_positions ! i)
           (glyph_far_corner y_increases_upwards (example_positions ! i) (example_glyphs ! i)
              (glyph_scales (length example_positions) [] ! i)) ! corner
     \<and> glyph_offset (example_glyphs ! i) = 7
     \<and> layer (atlas_location (example_glyphs ! i)) = 3
     \<and> layer (secondary_atlas_location (example_glyphs ! i)) = 5"
    by (simp add: fields)
  with example_run mem fields show ?thesis
    by blast
qed

end
